theory Spec2Isabelle
  imports Main "HOL-Library.Word"
begin

section \<open>The vault client (py-client/vault\_client.py)\<close>

text \<open>
  The client is a sequential command-line driver over three libraries: \<open>eth_account\<close>
  (the signer), \<open>web3\<close> (the contract proxy and the transport) and \<open>sapphirepy\<close> (the
  signed-query wrapper). The libraries and the network are not code of the client: they
  are the fields of a record \<open>world\<close>, each a function that returns a value or the
  exception it raises. What the client itself does (the order of its steps, its guards,
  what it prints, what it catches) is modelled step by step, as a list of events and a
  final outcome.
\<close>

subsection \<open>Values\<close>

type_synonym bytes = "8 word list"

text \<open>A Python \<open>str\<close> that may hold any character: the list of its code points.
  Command-line arguments, addresses and provider names are only compared and printed, and
  are plain \<open>string\<close>s.\<close>

type_synonym str = "nat list"

text \<open>The exceptions that reach the client. \<open>ValueError\<close> is what \<open>get_client\<close>
  raises itself (the spec's ConfigError); \<open>NetworkError\<close>, \<open>RpcError\<close> and
  \<open>ContractRevertError\<close> stand for what the libraries raise on a transport failure, a
  malformed response and a revert; \<open>UnicodeDecodeError\<close> is the spec's DecodeError.
  \<open>KeyboardInterrupt\<close> is the one member that does not derive from Python's
  \<open>Exception\<close>, so \<open>except Exception\<close> lets it through.\<close>

datatype exn =
    ValueError string
  | NetworkError string
  | RpcError string
  | ContractRevertError string
  | UnicodeDecodeError
  | OtherException string
  | KeyboardInterrupt

fun is_Exception :: "exn \<Rightarrow> bool" where
  "is_Exception KeyboardInterrupt = False"
| "is_Exception _ = True"

record account =
  key :: string
  address :: string

text \<open>A \<open>Web3\<close> instance: the endpoint of its HTTP provider and, once
  \<open>sapphire.wrap\<close> has taken effect, the account that signs its queries.\<close>

record w3 =
  rpc_url :: string
  signer :: "account option"

subsection \<open>Constants of the module\<close>

definition RPC_URL :: string where
  "RPC_URL = ''https://testnet.sapphire.oasis.io''"

definition CHAIN_ID :: nat where
  "CHAIN_ID = 0x5aff"

record abi_param =
  param_name :: string
  param_type :: string

record abi_entry =
  abi_inputs :: "abi_param list"
  abi_name :: string
  abi_outputs :: "abi_param list"
  abi_stateMutability :: string
  abi_type :: string

definition getSecret_abi :: abi_entry where
  "getSecret_abi =
     \<lparr>abi_inputs = [\<lparr>param_name = ''owner'', param_type = ''address''\<rparr>,
                    \<lparr>param_name = ''providerId'', param_type = ''bytes32''\<rparr>],
      abi_name = ''getSecret'',
      abi_outputs = [\<lparr>param_name = '''', param_type = ''bytes''\<rparr>],
      abi_stateMutability = ''view'',
      abi_type = ''function''\<rparr>"

definition getSecretInfo_abi :: abi_entry where
  "getSecretInfo_abi =
     \<lparr>abi_inputs = [\<lparr>param_name = ''owner'', param_type = ''address''\<rparr>,
                    \<lparr>param_name = ''providerId'', param_type = ''bytes32''\<rparr>],
      abi_name = ''getSecretInfo'',
      abi_outputs = [\<lparr>param_name = ''version'', param_type = ''uint64''\<rparr>,
                     \<lparr>param_name = ''exists'', param_type = ''bool''\<rparr>,
                     \<lparr>param_name = ''isAllowed'', param_type = ''bool''\<rparr>],
      abi_stateMutability = ''view'',
      abi_type = ''function''\<rparr>"

definition whoAmI_abi :: abi_entry where
  "whoAmI_abi =
     \<lparr>abi_inputs = [],
      abi_name = ''whoAmI'',
      abi_outputs = [\<lparr>param_name = '''', param_type = ''address''\<rparr>],
      abi_stateMutability = ''view'',
      abi_type = ''function''\<rparr>"

definition ABI :: "abi_entry list" where
  "ABI = [getSecret_abi, getSecretInfo_abi, whoAmI_abi]"

text \<open>The list \<open>whoami\<close> builds: \<open>ABI + [{... "name": "whoAmI" ...}]\<close>.\<close>

definition abi_with_whoami :: "abi_entry list" where
  "abi_with_whoami =
     ABI @ [\<lparr>abi_inputs = [],
             abi_name = ''whoAmI'',
             abi_outputs = [\<lparr>param_name = '''', param_type = ''address''\<rparr>],
             abi_stateMutability = ''view'',
             abi_type = ''function''\<rparr>]"

text \<open>\<open>PROVIDERS\<close> is a dict literal, built when the module is loaded from
  \<open>Web3.keccak(text=name)\<close>; the hash function is the library's and is a parameter.
  The association list keeps the literal's order, which is the order of
  \<open>PROVIDERS.keys()\<close>.\<close>

definition PROVIDERS :: "(string \<Rightarrow> bytes) \<Rightarrow> (string \<times> bytes) list" where
  "PROVIDERS keccak =
     [(''ANTHROPIC_API_KEY'', keccak ''ANTHROPIC_API_KEY''),
      (''OPENAI_API_KEY'', keccak ''OPENAI_API_KEY''),
      (''XAI_API_KEY'', keccak ''XAI_API_KEY''),
      (''OPENROUTER_API_KEY'', keccak ''OPENROUTER_API_KEY''),
      (''ZAI_API_KEY'', keccak ''ZAI_API_KEY''),
      (''GOOGLE_API_KEY'', keccak ''GOOGLE_API_KEY'')]"

text \<open>\<open>PROVIDERS.get(provider)\<close> and \<open>PROVIDERS.keys()\<close>.\<close>

definition PROVIDERS_get :: "(string \<Rightarrow> bytes) \<Rightarrow> string \<Rightarrow> bytes option" where
  "PROVIDERS_get keccak provider = map_of (PROVIDERS keccak) provider"

definition PROVIDERS_keys :: "(string \<Rightarrow> bytes) \<Rightarrow> string list" where
  "PROVIDERS_keys keccak = map fst (PROVIDERS keccak)"

text \<open>\<open>', '.join(names)\<close>.\<close>

fun join_comma :: "string list \<Rightarrow> string" where
  "join_comma [] = []"
| "join_comma [x] = x"
| "join_comma (x # y # ys) = x @ '', '' @ join_comma (y # ys)"

subsection \<open>The contract proxy and the outside world\<close>

text \<open>\<open>w3.eth.contract(address=..., abi=...)\<close> gives a proxy that holds the client, the
  address and the ABI it was given.\<close>

record contract =
  contract_w3 :: w3
  contract_address :: string
  contract_abi :: "abi_entry list"

datatype request =
    GetSecret string bytes
  | GetSecretInfo string bytes
  | WhoAmI

record world =
  PRIVATE_KEY :: "string option"
  from_key :: "string \<Rightarrow> exn + account"
  sapphire_wrap :: "w3 \<Rightarrow> account \<Rightarrow> exn + w3"
  keccak :: "string \<Rightarrow> bytes"
  contract_rejects :: "string \<Rightarrow> abi_entry list \<Rightarrow> exn option"
  call_getSecret :: "contract \<Rightarrow> string \<Rightarrow> bytes \<Rightarrow> exn + bytes"
  call_getSecretInfo :: "contract \<Rightarrow> string \<Rightarrow> bytes \<Rightarrow> exn + (nat \<times> bool \<times> bool)"
  call_whoAmI :: "contract \<Rightarrow> exn + string"

text \<open>
  \<^item> \<open>PRIVATE_KEY\<close>: \<open>os.environ.get("PRIVATE_KEY")\<close>, after \<open>load_dotenv()\<close>;
  \<^item> \<open>from_key\<close>: \<open>Account.from_key\<close>, which raises on a malformed key;
  \<^item> \<open>sapphire_wrap\<close>: \<open>sapphire.wrap\<close>;
  \<^item> \<open>contract_rejects\<close>: the exception \<open>w3.eth.contract\<close> raises for an address or
    an ABI it does not accept, if any;
  \<^item> \<open>call_...\<close>: \<open>contract.functions.f(...).call()\<close>, the one network round trip.
\<close>

subsection \<open>What a run does\<close>

datatype line =
    Usage
  | Caller string
  | Owner string
  | Provider string
  | Unknown_provider string
  | Secret str
  | Error exn
  | Version nat
  | Exists bool
  | IsAllowed bool
  | Expected string
  | Returned string
  | Signed_queries_working
  | Unsigned
  | Unexpected_result

text \<open>
  Each \<open>print\<close> of the source is one \<open>line\<close>:
  \<open>Usage\<close> is \<open>print(__doc__)\<close>; \<open>Unknown_provider s\<close> is
  \<open>"Unknown provider. Valid: " + s\<close>; \<open>Secret s\<close> is \<open>"\n\<checkmark> Secret: " + s\<close>;
  \<open>Error e\<close> is \<open>"\n\<times> Error: " + str(e)\<close>; the last three are the verdicts of
  \<open>whoami\<close>.

  An event is a \<open>print\<close>, the construction of a contract proxy or the sending of a call.
\<close>

datatype event =
    Print line
  | Contract w3 string "abi_entry list"
  | Call contract request

text \<open>The result of running a piece of the program: the events in order, and either the
  exception that left it (\<open>Inl\<close>) or its normal return (\<open>Inr\<close>).\<close>

type_synonym run = "event list \<times> (exn + unit)"

subsection \<open>UTF-8, as \<open>bytes.decode('utf-8')\<close> and \<open>str.encode('utf-8')\<close> do it\<close>

text \<open>Python's decoder is strict: it accepts the well-formed byte sequences of the Unicode
  standard and nothing else (no overlong form, no surrogate, nothing above U+10FFFF,
  no truncated sequence), and raises \<open>UnicodeDecodeError\<close> otherwise. The functions
  work on the bytes' values; \<open>None\<close> is the exception.\<close>

definition is_continuation :: "nat \<Rightarrow> bool" where
  "is_continuation b = (0x80 \<le> b \<and> b \<le> 0xBF)"

text \<open>The range of the second byte, which depends on the first: this is what excludes
  overlong forms (\<open>E0\<close>, \<open>F0\<close>), surrogates (\<open>ED\<close>) and code points above U+10FFFF
  (\<open>F4\<close>).\<close>

definition second_byte_ok :: "nat \<Rightarrow> nat \<Rightarrow> bool" where
  "second_byte_ok b0 b1 =
     (if b0 = 0xE0 then 0xA0 \<le> b1 \<and> b1 \<le> 0xBF
      else if b0 = 0xED then 0x80 \<le> b1 \<and> b1 \<le> 0x9F
      else if b0 = 0xF0 then 0x90 \<le> b1 \<and> b1 \<le> 0xBF
      else if b0 = 0xF4 then 0x80 \<le> b1 \<and> b1 \<le> 0x8F
      else is_continuation b1)"

fun utf8_decode_nat :: "nat list \<Rightarrow> nat list option" where
  "utf8_decode_nat [] = Some []"
| "utf8_decode_nat (b0 # bs) =
     (if b0 < 0x80 then map_option ((#) b0) (utf8_decode_nat bs)
      else if 0xC2 \<le> b0 \<and> b0 \<le> 0xDF then
        (case bs of
           b1 # r \<Rightarrow>
             if is_continuation b1
             then map_option ((#) ((b0 - 0xC0) * 64 + (b1 - 0x80))) (utf8_decode_nat r)
             else None
         | _ \<Rightarrow> None)
      else if 0xE0 \<le> b0 \<and> b0 \<le> 0xEF then
        (case bs of
           b1 # b2 # r \<Rightarrow>
             if second_byte_ok b0 b1 \<and> is_continuation b2
             then map_option
                    ((#) ((b0 - 0xE0) * 4096 + (b1 - 0x80) * 64 + (b2 - 0x80)))
                    (utf8_decode_nat r)
             else None
         | _ \<Rightarrow> None)
      else if 0xF0 \<le> b0 \<and> b0 \<le> 0xF4 then
        (case bs of
           b1 # b2 # b3 # r \<Rightarrow>
             if second_byte_ok b0 b1 \<and> is_continuation b2 \<and> is_continuation b3
             then map_option
                    ((#) ((b0 - 0xF0) * 262144 + (b1 - 0x80) * 4096 + (b2 - 0x80) * 64
                          + (b3 - 0x80)))
                    (utf8_decode_nat r)
             else None
         | _ \<Rightarrow> None)
      else None)"

definition utf8_decode :: "bytes \<Rightarrow> exn + str" where
  "utf8_decode bs =
     (case utf8_decode_nat (map unat bs) of
        None \<Rightarrow> Inl UnicodeDecodeError
      | Some s \<Rightarrow> Inr s)"

text \<open>The characters a text can be stored from: the Unicode scalar values. (A Python
  \<open>str\<close> can hold a lone surrogate, but \<open>encode('utf-8')\<close> refuses it.)\<close>

definition is_scalar :: "nat \<Rightarrow> bool" where
  "is_scalar c = (c < 0xD800 \<or> (0xE000 \<le> c \<and> c < 0x110000))"

text \<open>\<open>str.encode('utf-8')\<close>, for a text of scalar values (Python raises
  \<open>UnicodeEncodeError\<close> on any other).\<close>

definition utf8_encode_char :: "nat \<Rightarrow> nat list" where
  "utf8_encode_char c =
     (if c < 0x80 then [c]
      else if c < 0x800 then [0xC0 + c div 64, 0x80 + c mod 64]
      else if c < 0x10000 then
        [0xE0 + c div 4096, 0x80 + (c div 64) mod 64, 0x80 + c mod 64]
      else
        [0xF0 + c div 262144, 0x80 + (c div 4096) mod 64, 0x80 + (c div 64) mod 64,
         0x80 + c mod 64])"

definition utf8_encode :: "str \<Rightarrow> bytes" where
  "utf8_encode s = map of_nat (concat (map utf8_encode_char s))"

subsection \<open>The commands\<close>

definition get_client :: "world \<Rightarrow> exn + (w3 \<times> account)" where
  "get_client w =
     (case PRIVATE_KEY w of
        None \<Rightarrow> Inl (ValueError ''PRIVATE_KEY environment variable required'')
      | Some private_key \<Rightarrow>
          if private_key = []
          then Inl (ValueError ''PRIVATE_KEY environment variable required'')
          else
            (case from_key w private_key of
               Inl e \<Rightarrow> Inl e
             | Inr account \<Rightarrow>
                 (case sapphire_wrap w \<lparr>rpc_url = RPC_URL, signer = None\<rparr> account of
                    Inl e \<Rightarrow> Inl e
                  | Inr client \<Rightarrow> Inr (client, account))))"

text \<open>\<open>w3.eth.contract(address=contract_addr, abi=abi)\<close>.\<close>

definition eth_contract :: "world \<Rightarrow> w3 \<Rightarrow> string \<Rightarrow> abi_entry list \<Rightarrow> exn + contract" where
  "eth_contract w client contract_addr abi =
     (case contract_rejects w contract_addr abi of
        Some e \<Rightarrow> Inl e
      | None \<Rightarrow>
          Inr \<lparr>contract_w3 = client, contract_address = contract_addr, contract_abi = abi\<rparr>)"

text \<open>\<open>try: body except Exception as e: print(f"\n\<times> Error: {e}")\<close>: an exception that
  derives from \<open>Exception\<close> ends the body, is printed, and the command goes on (here: it
  returns); any other leaves the command.\<close>

definition except_Exception :: "run \<Rightarrow> run" where
  "except_Exception body =
     (case body of
        (events, Inl e) \<Rightarrow>
          if is_Exception e then (events @ [Print (Error e)], Inr ()) else (events, Inl e)
      | (events, Inr u) \<Rightarrow> (events, Inr u))"

text \<open>What has happened before a piece of the program runs.\<close>

definition after :: "event list \<Rightarrow> run \<Rightarrow> run" where
  "after before r = (before @ fst r, snd r)"

text \<open>\<open>if not provider_id\<close>: the name is not a key of the table (\<open>None\<close>), or its hash
  is the empty byte string.\<close>

definition not_provider_id :: "bytes option \<Rightarrow> bool" where
  "not_provider_id provider_id = (provider_id = None \<or> provider_id = Some [])"

definition unknown_provider :: "world \<Rightarrow> event" where
  "unknown_provider w = Print (Unknown_provider (join_comma (PROVIDERS_keys (keccak w))))"

text \<open>The body of the \<open>try\<close> of \<open>get_secret\<close>.\<close>

definition get_secret_try :: "world \<Rightarrow> contract \<Rightarrow> string \<Rightarrow> bytes \<Rightarrow> run" where
  "get_secret_try w contract owner provider_id =
     (case call_getSecret w contract owner provider_id of
        Inl e \<Rightarrow> ([Call contract (GetSecret owner provider_id)], Inl e)
      | Inr secret_bytes \<Rightarrow>
          (case utf8_decode secret_bytes of
             Inl e \<Rightarrow> ([Call contract (GetSecret owner provider_id)], Inl e)
           | Inr secret \<Rightarrow>
               ([Call contract (GetSecret owner provider_id), Print (Secret secret)],
                Inr ())))"

definition get_secret :: "world \<Rightarrow> string \<Rightarrow> string \<Rightarrow> string \<Rightarrow> run" where
  "get_secret w contract_addr owner provider =
     (case get_client w of
        Inl e \<Rightarrow> ([], Inl e)
      | Inr (client, account) \<Rightarrow>
          after [Print (Caller (address account)), Print (Owner owner),
                 Print (Provider provider)]
            (case PROVIDERS_get (keccak w) provider of
               None \<Rightarrow> ([unknown_provider w], Inr ())
             | Some provider_id \<Rightarrow>
                 if not_provider_id (Some provider_id) then ([unknown_provider w], Inr ())
                 else
                   after [Contract client contract_addr ABI]
                     (case eth_contract w client contract_addr ABI of
                        Inl e \<Rightarrow> ([], Inl e)
                      | Inr contract \<Rightarrow>
                          except_Exception
                            (get_secret_try w contract owner provider_id))))"

text \<open>The body of the \<open>try\<close> of \<open>get_info\<close>.\<close>

definition get_info_try :: "world \<Rightarrow> contract \<Rightarrow> string \<Rightarrow> bytes \<Rightarrow> run" where
  "get_info_try w contract owner provider_id =
     (case call_getSecretInfo w contract owner provider_id of
        Inl e \<Rightarrow> ([Call contract (GetSecretInfo owner provider_id)], Inl e)
      | Inr (version, exists, isAllowed) \<Rightarrow>
          ([Call contract (GetSecretInfo owner provider_id),
            Print (Version version), Print (Exists exists), Print (IsAllowed isAllowed)],
           Inr ()))"

definition get_info :: "world \<Rightarrow> string \<Rightarrow> string \<Rightarrow> string \<Rightarrow> run" where
  "get_info w contract_addr owner provider =
     (case get_client w of
        Inl e \<Rightarrow> ([], Inl e)
      | Inr (client, account) \<Rightarrow>
          after [Print (Caller (address account))]
            (case PROVIDERS_get (keccak w) provider of
               None \<Rightarrow> ([unknown_provider w], Inr ())
             | Some provider_id \<Rightarrow>
                 if not_provider_id (Some provider_id) then ([unknown_provider w], Inr ())
                 else
                   after [Contract client contract_addr ABI]
                     (case eth_contract w client contract_addr ABI of
                        Inl e \<Rightarrow> ([], Inl e)
                      | Inr contract \<Rightarrow>
                          except_Exception
                            (get_info_try w contract owner provider_id))))"

definition zero_address :: string where
  "zero_address = ''0x0000000000000000000000000000000000000000''"

text \<open>The verdict of \<open>whoami\<close>: its \<open>if\<close>/\<open>elif\<close>/\<open>else\<close>, in the source's order.\<close>

definition verdict :: "account \<Rightarrow> string \<Rightarrow> line" where
  "verdict account result =
     (if result = address account then Signed_queries_working
      else if result = zero_address then Unsigned
      else Unexpected_result)"

text \<open>The body of the \<open>try\<close> of \<open>whoami\<close>.\<close>

definition whoami_try :: "world \<Rightarrow> contract \<Rightarrow> account \<Rightarrow> run" where
  "whoami_try w contract account =
     (case call_whoAmI w contract of
        Inl e \<Rightarrow> ([Call contract WhoAmI], Inl e)
      | Inr result \<Rightarrow>
          ([Call contract WhoAmI, Print (Returned result), Print (verdict account result)],
           Inr ()))"

definition whoami :: "world \<Rightarrow> string \<Rightarrow> run" where
  "whoami w contract_addr =
     (case get_client w of
        Inl e \<Rightarrow> ([], Inl e)
      | Inr (client, account) \<Rightarrow>
          after [Print (Expected (address account)),
                 Contract client contract_addr abi_with_whoami]
            (case eth_contract w client contract_addr abi_with_whoami of
               Inl e \<Rightarrow> ([], Inl e)
             | Inr contract \<Rightarrow> except_Exception (whoami_try w contract account)))"

text \<open>\<open>main\<close>, on \<open>sys.argv\<close> (the script's name first).\<close>

definition main :: "world \<Rightarrow> string list \<Rightarrow> run" where
  "main w argv =
     (if length argv < 2 then ([Print Usage], Inr ())
      else
        let cmd = argv ! 1 in
        if cmd = ''get-secret'' \<and> length argv = 5
        then get_secret w (argv ! 2) (argv ! 3) (argv ! 4)
        else if cmd = ''get-info'' \<and> length argv = 5
        then get_info w (argv ! 2) (argv ! 3) (argv ! 4)
        else if cmd = ''whoami'' \<and> length argv = 3
        then whoami w (argv ! 2)
        else ([Print Usage], Inr ()))"

subsection \<open>Notions used to state the properties\<close>

text \<open>The command lines the usage text lists, by their shape: the script's name, the
  command, and three arguments (\<open>get-secret\<close>, \<open>get-info\<close>) or one (\<open>whoami\<close>).\<close>

datatype command =
    Get_secret string string string
  | Get_info string string string
  | Whoami string

fun recognized :: "string list \<Rightarrow> command option" where
  "recognized [script, cmd, a] = (if cmd = ''whoami'' then Some (Whoami a) else None)"
| "recognized [script, cmd, a, b, c] =
     (if cmd = ''get-secret'' then Some (Get_secret a b c)
      else if cmd = ''get-info'' then Some (Get_info a b c)
      else None)"
| "recognized _ = None"

fun run_command :: "world \<Rightarrow> command \<Rightarrow> run" where
  "run_command w (Get_secret contract_addr owner provider) =
     get_secret w contract_addr owner provider"
| "run_command w (Get_info contract_addr owner provider) =
     get_info w contract_addr owner provider"
| "run_command w (Whoami contract_addr) = whoami w contract_addr"

text \<open>An event that reaches for the network: a contract proxy is built, or a call is
  sent.\<close>

fun is_network :: "event \<Rightarrow> bool" where
  "is_network (Print l) = False"
| "is_network (Contract client contract_addr abi) = True"
| "is_network (Call c q) = True"

text \<open>The exception a request meets inside the \<open>try\<close> of its command, if any: the one
  the call raises, or (for \<open>getSecret\<close>) the one the decoding of its result raises.\<close>

fun try_error :: "world \<Rightarrow> contract \<Rightarrow> request \<Rightarrow> exn option" where
  "try_error w c (GetSecret owner provider_id) =
     (case call_getSecret w c owner provider_id of
        Inl e \<Rightarrow> Some e
      | Inr secret_bytes \<Rightarrow>
          (case utf8_decode secret_bytes of Inl e \<Rightarrow> Some e | Inr secret \<Rightarrow> None))"
| "try_error w c (GetSecretInfo owner provider_id) =
     (case call_getSecretInfo w c owner provider_id of
        Inl e \<Rightarrow> Some e
      | Inr info \<Rightarrow> None)"
| "try_error w c WhoAmI =
     (case call_whoAmI w c of Inl e \<Rightarrow> Some e | Inr result \<Rightarrow> None)"

subsection \<open>A test double of the network\<close>

text \<open>Modelled from the spec: the Sapphire endpoint and the vault contract, which are not
  part of the client. The spec (4.2, 4.3) says: a call through a client wrapped for signed
  queries reaches the contract with the signer's address as \<open>msg.sender\<close>, a call through
  an unwrapped client with the zero address; \<open>whoAmI\<close> returns \<open>msg.sender\<close>;
  \<open>getSecretInfo\<close> projects the record and reports whether the caller may read it;
  \<open>getSecret\<close> returns the secret's bytes and reverts when the record does not exist
  or the caller is not allowed.\<close>

definition msg_sender :: "w3 \<Rightarrow> string" where
  "msg_sender client = (case signer client of Some a \<Rightarrow> address a | None \<Rightarrow> zero_address)"

definition test_account :: account where
  "test_account =
     \<lparr>key = ''0x0000000000000000000000000000000000000000000000000000000000000001'',
      address = ''0x7E5F4552091A69125d5DfCb7b8C2659029395Bdf''\<rparr>"

definition CONTRACT :: string where
  "CONTRACT = ''0x440222b531537ac1A90dbDF906D36Be0536e4Ec8''"

definition OWNER :: string where
  "OWNER = ''0x4Ec6E3b99E2E4422d6e64313F5AA2A8470DCDa2b''"

text \<open>A stand-in for the hash, 32 bytes long: the name's bytes, padded with zeros.\<close>

definition fake_keccak :: "string \<Rightarrow> bytes" where
  "fake_keccak name = map (\<lambda>c. of_nat (of_char c)) (take 32 (name @ replicate 32 (CHR 0x00)))"

text \<open>The text \<open>hello-key-123\<close>, by its code points.\<close>

definition hello_key_123 :: str where
  "hello_key_123 = [104, 101, 108, 108, 111, 45, 107, 101, 121, 45, 49, 50, 51]"

text \<open>The double holds one record, \<open>OWNER\<close>'s secret for \<open>OPENAI_API_KEY\<close>, in version 1,
  readable by the test account.\<close>

definition test_getSecretInfo :: "contract \<Rightarrow> string \<Rightarrow> bytes \<Rightarrow> exn + (nat \<times> bool \<times> bool)" where
  "test_getSecretInfo c owner provider_id =
     (if owner = OWNER \<and> provider_id = fake_keccak ''OPENAI_API_KEY''
      then Inr (1, True, msg_sender (contract_w3 c) = address test_account)
      else Inr (0, False, False))"

definition test_getSecret :: "contract \<Rightarrow> string \<Rightarrow> bytes \<Rightarrow> exn + bytes" where
  "test_getSecret c owner provider_id =
     (if owner = OWNER \<and> provider_id = fake_keccak ''OPENAI_API_KEY''
      then (if msg_sender (contract_w3 c) = address test_account
            then Inr (utf8_encode hello_key_123)
            else Inl (ContractRevertError ''not allowed''))
      else Inl (ContractRevertError ''no secret''))"

definition test_world :: world where
  "test_world =
     \<lparr>PRIVATE_KEY = Some (key test_account),
      from_key = (\<lambda>k. if k = key test_account then Inr test_account
                       else Inl (ValueError ''bad key'')),
      sapphire_wrap = (\<lambda>client a. Inr (client\<lparr>signer := Some a\<rparr>)),
      keccak = fake_keccak,
      contract_rejects = (\<lambda>contract_addr abi. None),
      call_getSecret = test_getSecret,
      call_getSecretInfo = test_getSecretInfo,
      call_whoAmI = (\<lambda>c. Inr (msg_sender (contract_w3 c)))\<rparr>"

section \<open>Properties\<close>

subsection \<open>UTF-8: decoding undoes encoding\<close>

text \<open>The digits of a code point in base 64, which are what the encoder spreads over the
  continuation bytes.\<close>

lemma lin3: "(c::nat) = 64 * d + r \<Longrightarrow> d = 64 * q + m \<Longrightarrow> q * 4096 + m * 64 + r = c"
  by simp

lemma digits3:
  fixes c :: nat
  obtains q m r where "c div 4096 = q" "(c div 64) mod 64 = m" "c mod 64 = r"
    "c = q * 4096 + m * 64 + r" "m < 64" "r < 64"
proof -
  define d where "d = c div 64"
  define r where "r = c mod 64"
  define q where "q = d div 64"
  define m where "m = d mod 64"
  have 1: "c = 64 * d + r" unfolding d_def r_def by simp
  have 2: "d = 64 * q + m" unfolding q_def m_def by simp
  have 3: "c div 4096 = q" unfolding q_def d_def by (simp add: div_mult2_eq)
  have 4: "m < 64" "r < 64" unfolding m_def r_def by simp_all
  have 5: "c = q * 4096 + m * 64 + r" using lin3 [OF 1 2] by simp
  show thesis using that [of q m r] 3 4 5 unfolding m_def r_def d_def by simp
qed

lemma digits4:
  fixes c :: nat
  obtains p q m r where "c div 262144 = p" "(c div 4096) mod 64 = q" "(c div 64) mod 64 = m"
    "c mod 64 = r" "c = p * 262144 + q * 4096 + m * 64 + r" "q < 64" "m < 64" "r < 64"
proof -
  define d where "d = c div 64"
  define r where "r = c mod 64"
  define e where "e = d div 64"
  define m where "m = d mod 64"
  define p where "p = e div 64"
  define q where "q = e mod 64"
  have 1: "c = 64 * d + r" unfolding d_def r_def by simp
  have 2: "d = 64 * e + m" unfolding e_def m_def by simp
  have 3: "e = 64 * p + q" unfolding p_def q_def by simp
  have 4: "c div 4096 = e" unfolding e_def d_def by (simp add: div_mult2_eq)
  have 5: "c div 262144 = p" unfolding p_def e_def d_def by (simp add: div_mult2_eq)
  have 6: "q < 64" "m < 64" "r < 64" unfolding q_def m_def r_def by simp_all
  have 7: "c = p * 262144 + q * 4096 + m * 64 + r" using 1 2 3 by simp
  show thesis using that [of p q m r] 4 5 6 7 unfolding q_def m_def r_def d_def by simp
qed


lemma decode_encode_char:
  assumes sc: "is_scalar c"
  shows "utf8_decode_nat (utf8_encode_char c @ bs) = map_option ((#) c) (utf8_decode_nat bs)"
proof -
  consider (one) "c < 0x80" | (two) "0x80 \<le> c" "c < 0x800"
    | (three) "0x800 \<le> c" "c < 0x10000" | (four) "0x10000 \<le> c" "c < 0x110000"
    using sc unfolding is_scalar_def by linarith
  then show ?thesis
  proof cases
    case one
    then show ?thesis by (simp add: utf8_encode_char_def)
  next
    case two
    have 1: "0xC2 \<le> 0xC0 + c div 64" "0xC0 + c div 64 \<le> 0xDF" using two by simp_all
    have 2: "(0xC0 + c div 64 - 0xC0) * 64 + (0x80 + c mod 64 - 0x80) = c" by simp
    have "c mod 64 < 64" by simp
    then have 3: "c mod 64 \<le> 63" by simp
    show ?thesis using two 1 2 3
      by (simp add: utf8_encode_char_def is_continuation_def)
  next
    case three
    obtain q m r where d: "c div 4096 = q" "(c div 64) mod 64 = m" "c mod 64 = r"
      "c = q * 4096 + m * 64 + r" "m < 64" "r < 64"
      by (rule digits3)
    have q: "q < 16" "q = 0 \<Longrightarrow> 32 \<le> m" "q = 13 \<Longrightarrow> m < 32"
      using three sc d(4,5,6) unfolding is_scalar_def by linarith+
    have enc: "utf8_encode_char c = [0xE0 + q, 0x80 + m, 0x80 + r]"
      using three d(1,2,3) by (simp add: utf8_encode_char_def)
    have ok: "second_byte_ok (0xE0 + q) (0x80 + m)"
      using q d(5) by (auto simp: second_byte_ok_def is_continuation_def)
    have val: "(0xE0 + q - 0xE0) * 4096 + (0x80 + m - 0x80) * 64 + (0x80 + r - 0x80) = c"
      using d(4) by simp
    show ?thesis unfolding enc using q(1) ok d(5,6) val
      by (simp add: is_continuation_def)
  next
    case four
    obtain p q m r where d: "c div 262144 = p" "(c div 4096) mod 64 = q"
      "(c div 64) mod 64 = m" "c mod 64 = r"
      "c = p * 262144 + q * 4096 + m * 64 + r" "q < 64" "m < 64" "r < 64"
      by (rule digits4)
    have p: "p < 5" "p = 0 \<Longrightarrow> 16 \<le> q" "p = 4 \<Longrightarrow> q < 16"
      using four d(5,6,7,8) by linarith+
    have enc: "utf8_encode_char c = [0xF0 + p, 0x80 + q, 0x80 + m, 0x80 + r]"
      using four d(1,2,3,4) by (simp add: utf8_encode_char_def)
    have ok: "second_byte_ok (0xF0 + p) (0x80 + q)"
      using p d(6) by (auto simp: second_byte_ok_def is_continuation_def)
    have val: "(0xF0 + p - 0xF0) * 262144 + (0x80 + q - 0x80) * 4096 + (0x80 + m - 0x80) * 64
               + (0x80 + r - 0x80) = c"
      using d(5) by simp
    show ?thesis unfolding enc using p(1) ok d(6,7,8) val
      by (simp add: is_continuation_def)
  qed
qed

lemma encode_char_bytes: "is_scalar c \<Longrightarrow> b \<in> set (utf8_encode_char c) \<Longrightarrow> b < 256"
  unfolding utf8_encode_char_def is_scalar_def
  by (auto split: if_splits)

lemma decode_encode_nat:
  "list_all is_scalar s \<Longrightarrow> utf8_decode_nat (concat (map utf8_encode_char s)) = Some s"
  by (induction s) (simp_all add: decode_encode_char)

lemma unat_of_nat_bytes:
  "\<forall>b \<in> set xs. b < 256 \<Longrightarrow> map unat (map of_nat xs :: 8 word list) = xs"
  by (induction xs) (simp_all add: unat_of_nat)

lemma utf8_decode_encode:
  assumes "list_all is_scalar s"
  shows "utf8_decode (utf8_encode s) = Inr s"
proof -
  have "\<forall>b \<in> set (concat (map utf8_encode_char s)). b < 256"
    using assms by (auto simp: list_all_iff dest: encode_char_bytes)
  then have "map unat (utf8_encode s) = concat (map utf8_encode_char s)"
    unfolding utf8_encode_def by (rule unat_of_nat_bytes)
  then show ?thesis using decode_encode_nat [OF assms] by (simp add: utf8_decode_def)
qed

subsection \<open>The provider table\<close>

lemma PROVIDERS_keys_eq:
  "PROVIDERS_keys k =
     [''ANTHROPIC_API_KEY'', ''OPENAI_API_KEY'', ''XAI_API_KEY'', ''OPENROUTER_API_KEY'',
      ''ZAI_API_KEY'', ''GOOGLE_API_KEY'']"
  by (simp add: PROVIDERS_keys_def PROVIDERS_def)

lemma PROVIDERS_get_unknown:
  "provider \<notin> set (PROVIDERS_keys k) \<Longrightarrow> PROVIDERS_get k provider = None"
  by (simp add: PROVIDERS_get_def PROVIDERS_keys_def map_of_eq_None_iff)

text \<open>C4. Each of the six names is a key of the table, and what the table stores under it
  is the hash of that very name: looking the name up gives the same bytes as hashing it
  again (as the test script does for \<open>OPENAI_API_KEY\<close>). The keys are distinct, so no
  entry of the literal overwrites another, and the table is nothing but the names paired
  with their hashes. This holds for every hash function, in particular for keccak-256.\<close>

theorem providers_table_is_hash_of_name:
  "PROVIDERS_get k ''ANTHROPIC_API_KEY'' = Some (k ''ANTHROPIC_API_KEY'')
   \<and> PROVIDERS_get k ''OPENAI_API_KEY'' = Some (k ''OPENAI_API_KEY'')
   \<and> PROVIDERS_get k ''XAI_API_KEY'' = Some (k ''XAI_API_KEY'')
   \<and> PROVIDERS_get k ''OPENROUTER_API_KEY'' = Some (k ''OPENROUTER_API_KEY'')
   \<and> PROVIDERS_get k ''ZAI_API_KEY'' = Some (k ''ZAI_API_KEY'')
   \<and> PROVIDERS_get k ''GOOGLE_API_KEY'' = Some (k ''GOOGLE_API_KEY'')
   \<and> distinct (PROVIDERS_keys k)
   \<and> PROVIDERS k = map (\<lambda>name. (name, k name)) (PROVIDERS_keys k)"
  by (simp add: PROVIDERS_get_def PROVIDERS_keys_def PROVIDERS_def)

theorem providers_table_is_hash_of_name_witness:
  "PROVIDERS_get fake_keccak ''OPENAI_API_KEY'' = Some (fake_keccak ''OPENAI_API_KEY'')
   \<and> length (fake_keccak ''OPENAI_API_KEY'') = 32"
  using providers_table_is_hash_of_name [of fake_keccak]
  by (simp add: fake_keccak_def)

subsection \<open>The ABI of \<open>whoami\<close>\<close>

text \<open>C10. The list \<open>whoami\<close> binds to the contract is the base ABI, whose third entry
  already declares \<open>whoAmI\<close>, with the same declaration appended: four entries, the last
  two identical, and they are the two entries named \<open>whoAmI\<close>. It is the list the proxy
  is built with, right after the \<open>Expected\<close> line.\<close>

theorem whoami_abi_declares_whoAmI_twice:
  "abi_with_whoami = ABI @ [whoAmI_abi]
   \<and> abi_with_whoami = [getSecret_abi, getSecretInfo_abi, whoAmI_abi, whoAmI_abi]
   \<and> length abi_with_whoami = 4
   \<and> abi_with_whoami ! 2 = abi_with_whoami ! 3
   \<and> filter (\<lambda>entry. abi_name entry = ''whoAmI'') abi_with_whoami = [whoAmI_abi, whoAmI_abi]
   \<and> (case get_client w of
        Inl e \<Rightarrow> True
      | Inr (client, account) \<Rightarrow>
          take 2 (fst (whoami w contract_addr))
          = [Print (Expected (address account)),
             Contract client contract_addr abi_with_whoami])"
  by (simp add: abi_with_whoami_def ABI_def whoAmI_abi_def getSecret_abi_def
      getSecretInfo_abi_def whoami_def after_def split: sum.splits prod.splits)

subsection \<open>Commands without a client\<close>

lemma get_client_unset:
  "PRIVATE_KEY w = None \<or> PRIVATE_KEY w = Some [] \<Longrightarrow>
   get_client w = Inl (ValueError ''PRIVATE_KEY environment variable required'')"
  by (auto simp: get_client_def)

lemma get_secret_no_client: "get_client w = Inl e \<Longrightarrow> get_secret w c ow p = ([], Inl e)"
  by (simp add: get_secret_def)

lemma get_info_no_client: "get_client w = Inl e \<Longrightarrow> get_info w c ow p = ([], Inl e)"
  by (simp add: get_info_def)

lemma whoami_no_client: "get_client w = Inl e \<Longrightarrow> whoami w c = ([], Inl e)"
  by (simp add: whoami_def)

lemma main_recognized:
  "main w argv =
     (case recognized argv of
        Some cmd \<Rightarrow> run_command w cmd
      | None \<Rightarrow> ([Print Usage], Inr ()))"
proof (cases argv rule: recognized.cases)
  case (1 script cmd a)
  then show ?thesis by (simp add: main_def)
next
  case (2 script cmd a b c)
  then show ?thesis by (simp add: main_def)
qed (auto simp: main_def)

text \<open>C3. With \<open>PRIVATE_KEY\<close> unset or empty, each of the three commands ends at once
  with the \<open>ValueError\<close> whose message names the variable; nothing has been printed, no
  proxy built and no call sent. So does \<open>main\<close> on every command line that it
  dispatches.\<close>

theorem missing_private_key_aborts:
  assumes "PRIVATE_KEY w = None \<or> PRIVATE_KEY w = Some []"
  shows "get_secret w contract_addr owner provider =
           ([], Inl (ValueError ''PRIVATE_KEY environment variable required''))
       \<and> get_info w contract_addr owner provider =
           ([], Inl (ValueError ''PRIVATE_KEY environment variable required''))
       \<and> whoami w contract_addr =
           ([], Inl (ValueError ''PRIVATE_KEY environment variable required''))
       \<and> (case recognized argv of
            Some cmd \<Rightarrow>
              main w argv = ([], Inl (ValueError ''PRIVATE_KEY environment variable required''))
          | None \<Rightarrow> main w argv = ([Print Usage], Inr ()))"
proof -
  have c: "get_client w = Inl (ValueError ''PRIVATE_KEY environment variable required'')"
    using assms by (rule get_client_unset)
  have "run_command w cmd = ([], Inl (ValueError ''PRIVATE_KEY environment variable required''))"
    for cmd
    using c by (cases cmd) (simp_all add: get_secret_no_client get_info_no_client whoami_no_client)
  then show ?thesis
    using c
    by (simp add: get_secret_no_client get_info_no_client whoami_no_client main_recognized
        split: option.splits)
qed

theorem missing_private_key_aborts_witness:
  "PRIVATE_KEY (test_world\<lparr>PRIVATE_KEY := None\<rparr>) = None
   \<and> get_secret (test_world\<lparr>PRIVATE_KEY := None\<rparr>) CONTRACT OWNER ''OPENAI_API_KEY'' =
        ([], Inl (ValueError ''PRIVATE_KEY environment variable required''))
   \<and> whoami (test_world\<lparr>PRIVATE_KEY := Some []\<rparr>) CONTRACT =
        ([], Inl (ValueError ''PRIVATE_KEY environment variable required''))
   \<and> main (test_world\<lparr>PRIVATE_KEY := None\<rparr>)
        [''vault_client.py'', ''get-info'', CONTRACT, OWNER, ''OPENAI_API_KEY''] =
        ([], Inl (ValueError ''PRIVATE_KEY environment variable required''))"
  using missing_private_key_aborts
          [of "test_world\<lparr>PRIVATE_KEY := None\<rparr>" CONTRACT OWNER "''OPENAI_API_KEY''"
             "[''vault_client.py'', ''get-info'', CONTRACT, OWNER, ''OPENAI_API_KEY'']"]
        missing_private_key_aborts
          [of "test_world\<lparr>PRIVATE_KEY := Some []\<rparr>" CONTRACT OWNER "''OPENAI_API_KEY''" "[]"]
  by simp

subsection \<open>Dispatch\<close>

lemmas cmd_defs = get_secret_def get_info_def whoami_def after_def except_Exception_def
  eth_contract_def get_secret_try_def get_info_try_def whoami_try_def unknown_provider_def
  not_provider_id_def

lemma no_usage: "Print Usage \<notin> set (fst (run_command w cmd))"
  by (cases cmd)
     (auto simp: cmd_defs verdict_def split: sum.splits option.splits prod.splits if_splits)

lemma recognized_shape:
  "(recognized argv \<noteq> None) =
     (length argv = 5 \<and> (argv ! 1 = ''get-secret'' \<or> argv ! 1 = ''get-info'')
      \<or> length argv = 3 \<and> argv ! 1 = ''whoami'')"
  by (cases argv rule: recognized.cases) auto

text \<open>C8. \<open>main\<close> runs a command exactly for the argument vectors of the three recognized
  shapes (the script's name, then \<open>get-secret\<close> or \<open>get-info\<close> and three arguments, or
  \<open>whoami\<close> and one), and then it is that command on those arguments; for every other
  vector it prints the usage text, nothing else, and returns normally. No command prints
  the usage text, so the two cases cannot be confused.\<close>

theorem main_dispatches_recognized_commands_only:
  "main w argv =
     (case recognized argv of
        Some cmd \<Rightarrow> run_command w cmd
      | None \<Rightarrow> ([Print Usage], Inr ()))
   \<and> Print Usage \<notin> set (fst (run_command w cmd))
   \<and> (recognized argv \<noteq> None) =
       (length argv = 5 \<and> (argv ! 1 = ''get-secret'' \<or> argv ! 1 = ''get-info'')
        \<or> length argv = 3 \<and> argv ! 1 = ''whoami'')"
  using main_recognized [of w argv] no_usage [of w cmd] recognized_shape [of argv]
  by simp

theorem main_dispatches_recognized_commands_only_witness:
  "main test_world [''vault_client.py'', ''whoami'', CONTRACT] = whoami test_world CONTRACT
   \<and> main test_world [''vault_client.py'', ''whoami''] = ([Print Usage], Inr ())
   \<and> main test_world [''vault_client.py'', ''get-secret'', CONTRACT, OWNER] = ([Print Usage], Inr ())
   \<and> main test_world [''vault_client.py'', ''delete'', CONTRACT] = ([Print Usage], Inr ())
   \<and> main test_world [] = ([Print Usage], Inr ())"
  using main_dispatches_recognized_commands_only
          [of test_world "[''vault_client.py'', ''whoami'', CONTRACT]"]
        main_dispatches_recognized_commands_only
          [of test_world "[''vault_client.py'', ''whoami'']"]
        main_dispatches_recognized_commands_only
          [of test_world "[''vault_client.py'', ''get-secret'', CONTRACT, OWNER]"]
        main_dispatches_recognized_commands_only
          [of test_world "[''vault_client.py'', ''delete'', CONTRACT]"]
        main_dispatches_recognized_commands_only [of test_world "[]"]
  by simp

subsection \<open>The test double\<close>

lemma fake_keccak_length: "length (fake_keccak name) = 32"
  by (simp add: fake_keccak_def)

lemma fake_keccak_nonempty: "fake_keccak name \<noteq> []"
  using fake_keccak_length [of name] by auto

lemma test_client:
  "get_client test_world = Inr (\<lparr>rpc_url = RPC_URL, signer = Some test_account\<rparr>, test_account)"
  by (simp add: get_client_def test_world_def test_account_def)

lemma test_client_unset:
  "get_client (test_world\<lparr>PRIVATE_KEY := None\<rparr>)
   = Inl (ValueError ''PRIVATE_KEY environment variable required'')"
  by (simp add: get_client_def)

lemma test_world_fields:
  "keccak test_world = fake_keccak"
  "contract_rejects test_world = (\<lambda>contract_addr abi. None)"
  "call_getSecret test_world = test_getSecret"
  "call_getSecretInfo test_world = test_getSecretInfo"
  "call_whoAmI test_world = (\<lambda>c. Inr (msg_sender (contract_w3 c)))"
  by (simp_all add: test_world_def)

lemma test_provider:
  "PROVIDERS_get fake_keccak ''OPENAI_API_KEY'' = Some (fake_keccak ''OPENAI_API_KEY'')"
  by (simp add: PROVIDERS_get_def PROVIDERS_def)


lemma hello_scalar: "list_all is_scalar hello_key_123"
  by (simp add: hello_key_123_def is_scalar_def)


text \<open>A run of the double where the contract reverts: an owner with no record.\<close>

lemma test_revert:
  "main test_world [''vault_client.py'', ''get-secret'', CONTRACT, ''0xabc'', ''OPENAI_API_KEY'']
   = ([Print (Caller (address test_account)), Print (Owner ''0xabc''),
       Print (Provider ''OPENAI_API_KEY''),
       Contract \<lparr>rpc_url = RPC_URL, signer = Some test_account\<rparr> CONTRACT ABI,
       Call \<lparr>contract_w3 = \<lparr>rpc_url = RPC_URL, signer = Some test_account\<rparr>,
              contract_address = CONTRACT, contract_abi = ABI\<rparr>
            (GetSecret ''0xabc'' (fake_keccak ''OPENAI_API_KEY'')),
       Print (Error (ContractRevertError ''no secret''))], Inr ())"
  by (simp add: main_def get_secret_def test_client test_world_fields test_provider
      not_provider_id_def fake_keccak_nonempty after_def eth_contract_def except_Exception_def
      get_secret_try_def test_getSecret_def OWNER_def)

subsection \<open>What the commands do once the client is loaded\<close>

lemma join_providers:
  "join_comma (PROVIDERS_keys k) =
     ''ANTHROPIC_API_KEY, OPENAI_API_KEY, XAI_API_KEY, OPENROUTER_API_KEY, ZAI_API_KEY, GOOGLE_API_KEY''"
  by (simp add: PROVIDERS_keys_eq)

lemma get_secret_unknown:
  assumes "get_client w = Inr (client, account)" "PROVIDERS_get (keccak w) p = None"
  shows "get_secret w a ow p =
           ([Print (Caller (address account)), Print (Owner ow), Print (Provider p),
             unknown_provider w], Inr ())"
  using assms by (simp add: get_secret_def after_def)

lemma get_info_unknown:
  assumes "get_client w = Inr (client, account)" "PROVIDERS_get (keccak w) p = None"
  shows "get_info w a ow p = ([Print (Caller (address account)), unknown_provider w], Inr ())"
  using assms by (simp add: get_info_def after_def)

lemma get_secret_sent:
  assumes "get_client w = Inr (client, account)" "PROVIDERS_get (keccak w) p = Some provider_id"
    "provider_id \<noteq> []" "contract_rejects w a ABI = None"
  shows "get_secret w a ow p =
           after [Print (Caller (address account)), Print (Owner ow), Print (Provider p),
                  Contract client a ABI]
             (except_Exception
                (get_secret_try w \<lparr>contract_w3 = client, contract_address = a, contract_abi = ABI\<rparr>
                   ow provider_id))"
  using assms by (simp add: get_secret_def after_def not_provider_id_def eth_contract_def)



subsection \<open>Errors\<close>

lemma get_secret_call_error:
  assumes "Call c q \<in> set (fst (get_secret w a ow p))" "try_error w c q = Some e" "is_Exception e"
  shows "snd (get_secret w a ow p) = Inr () \<and> last (fst (get_secret w a ow p)) = Print (Error e)"
  using assms
  by (auto simp: cmd_defs split: sum.splits option.splits prod.splits if_splits)

lemma get_info_call_error:
  assumes "Call c q \<in> set (fst (get_info w a ow p))" "try_error w c q = Some e" "is_Exception e"
  shows "snd (get_info w a ow p) = Inr () \<and> last (fst (get_info w a ow p)) = Print (Error e)"
  using assms
  by (auto simp: cmd_defs split: sum.splits option.splits prod.splits if_splits)

lemma whoami_call_error:
  assumes "Call c q \<in> set (fst (whoami w a))" "try_error w c q = Some e" "is_Exception e"
  shows "snd (whoami w a) = Inr () \<and> last (fst (whoami w a)) = Print (Error e)"
  using assms
  by (auto simp: cmd_defs split: sum.splits option.splits prod.splits if_splits)

lemma get_secret_escape:
  assumes "snd (get_secret w a ow p) = Inl e" "is_Exception e"
  shows "get_client w = Inl e \<or> contract_rejects w a ABI = Some e"
  using assms
  by (auto simp: cmd_defs split: sum.splits option.splits prod.splits if_splits)

lemma get_info_escape:
  assumes "snd (get_info w a ow p) = Inl e" "is_Exception e"
  shows "get_client w = Inl e \<or> contract_rejects w a ABI = Some e"
  using assms
  by (auto simp: cmd_defs split: sum.splits option.splits prod.splits if_splits)

lemma whoami_escape:
  assumes "snd (whoami w a) = Inl e" "is_Exception e"
  shows "get_client w = Inl e \<or> contract_rejects w a abi_with_whoami = Some e"
  using assms
  by (auto simp: cmd_defs split: sum.splits option.splits prod.splits if_splits)


lemma get_secret_proxy_error:
  assumes "get_client w = Inr (client, account)" "PROVIDERS_get (keccak w) p = Some provider_id"
    "provider_id \<noteq> []" "contract_rejects w a ABI = Some e"
  shows "get_secret w a ow p =
           ([Print (Caller (address account)), Print (Owner ow), Print (Provider p),
             Contract client a ABI], Inl e)"
  using assms by (simp add: get_secret_def after_def not_provider_id_def eth_contract_def)

lemma get_info_proxy_error:
  assumes "get_client w = Inr (client, account)" "PROVIDERS_get (keccak w) p = Some provider_id"
    "provider_id \<noteq> []" "contract_rejects w a ABI = Some e"
  shows "get_info w a ow p =
           ([Print (Caller (address account)), Contract client a ABI], Inl e)"
  using assms by (simp add: get_info_def after_def not_provider_id_def eth_contract_def)

lemma whoami_proxy_error:
  assumes "get_client w = Inr (client, account)" "contract_rejects w a abi_with_whoami = Some e"
  shows "whoami w a =
           ([Print (Expected (address account)), Contract client a abi_with_whoami], Inl e)"
  using assms by (simp add: whoami_def after_def eth_contract_def)

lemma recognized_Get_secret:
  "recognized argv = Some (Get_secret a ow p) \<Longrightarrow> argv ! 1 = ''get-secret'' \<and> argv ! 2 = a"
  by (cases argv rule: recognized.cases) (auto split: if_splits)

lemma recognized_Get_info:
  "recognized argv = Some (Get_info a ow p) \<Longrightarrow> argv ! 1 = ''get-info'' \<and> argv ! 2 = a"
  by (cases argv rule: recognized.cases) (auto split: if_splits)

lemma recognized_Whoami:
  "recognized argv = Some (Whoami a) \<Longrightarrow> argv ! 1 = ''whoami'' \<and> argv ! 2 = a"
  by (cases argv rule: recognized.cases) (auto split: if_splits)

lemma main_escape:
  assumes "snd (main w argv) = Inl e" "is_Exception e"
  shows "get_client w = Inl e
         \<or> contract_rejects w (argv ! 2) (if argv ! 1 = ''whoami'' then abi_with_whoami else ABI)
             = Some e"
proof (cases "recognized argv")
  case None
  then show ?thesis using assms by (simp add: main_recognized)
next
  case (Some cmd)
  then have m: "main w argv = run_command w cmd" by (simp add: main_recognized)
  show ?thesis
  proof (cases cmd)
    case (Get_secret a ow p)
    then show ?thesis
      using assms m Some recognized_Get_secret [of argv a ow p] get_secret_escape [of w a ow p e]
      by auto
  next
    case (Get_info a ow p)
    then show ?thesis
      using assms m Some recognized_Get_info [of argv a ow p] get_info_escape [of w a ow p e]
      by auto
  next
    case (Whoami a)
    then show ?thesis
      using assms m Some recognized_Whoami [of argv a] whoami_escape [of w a e]
      by auto
  qed
qed

lemma main_call_error:
  assumes "Call c q \<in> set (fst (main w argv))" "try_error w c q = Some e" "is_Exception e"
  shows "snd (main w argv) = Inr () \<and> last (fst (main w argv)) = Print (Error e)"
proof (cases "recognized argv")
  case None
  then show ?thesis using assms by (simp add: main_recognized)
next
  case (Some cmd)
  then have m: "main w argv = run_command w cmd" by (simp add: main_recognized)
  show ?thesis
  proof (cases cmd)
    case (Get_secret a ow p)
    then show ?thesis using assms m get_secret_call_error [of c q w a ow p e] by simp
  next
    case (Get_info a ow p)
    then show ?thesis using assms m get_info_call_error [of c q w a ow p e] by simp
  next
    case (Whoami a)
    then show ?thesis using assms m whoami_call_error [of c q w a e] by simp
  qed
qed

lemma main_no_client:
  assumes "recognized argv \<noteq> None" "get_client w = Inl e"
  shows "main w argv = ([], Inl e)"
proof -
  obtain cmd where c: "recognized argv = Some cmd" using assms(1) by auto
  have "run_command w cmd = ([], Inl e)"
    using assms(2)
    by (cases cmd) (simp_all add: get_secret_no_client get_info_no_client whoami_no_client)
  then show ?thesis using c by (simp add: main_recognized)
qed


lemma test_client_rejecting:
  "get_client (test_world\<lparr>contract_rejects := \<lambda>a abi. Some (OtherException ''invalid address'')\<rparr>)
   = Inr (\<lparr>rpc_url = RPC_URL, signer = Some test_account\<rparr>, test_account)"
  by (simp add: get_client_def test_world_def test_account_def)


text \<open>C1, as the spec states it, fails: \<open>main\<close> has no handler of its own and each command
  calls \<open>get_client\<close> before its \<open>try\<close>. With \<open>PRIVATE_KEY\<close> unset, \<open>whoami\<close> leaves
  \<open>main\<close> with the \<open>ValueError\<close>, and nothing has been printed.\<close>

theorem config_error_leaves_main_uncaught:
  "main (test_world\<lparr>PRIVATE_KEY := None\<rparr>) [''vault_client.py'', ''whoami'', CONTRACT]
   = ([], Inl (ValueError ''PRIVATE_KEY environment variable required''))"
  by (simp add: main_def whoami_def test_client_unset)


text \<open>C1, amended. What the commands catch is what is raised inside their \<open>try\<close>: once a
  call has been sent, an exception (deriving from \<open>Exception\<close>) of the call, or of the
  decoding of its result, is printed as the last line, an \<open>Error\<close> line, and \<open>main\<close>
  returns normally. What is raised before the \<open>try\<close> is not caught. When loading the
  client fails, a recognized command leaves \<open>main\<close> with that error and nothing printed.
  When the construction of the contract proxy fails, the command leaves \<open>main\<close> with that
  error, after its header lines and with no \<open>Error\<close> line. And an exception that leaves
  \<open>main\<close> was raised either by \<open>get_client\<close> or by the construction of the proxy for
  the command's own address and ABI.\<close>

theorem errors_caught_only_inside_try:
  "(recognized argv \<noteq> None \<and> get_client w = Inl e \<longrightarrow> main w argv = ([], Inl e))
   \<and> (get_client w = Inr (client, account)
       \<and> PROVIDERS_get (keccak w) provider = Some provider_id \<and> provider_id \<noteq> []
       \<and> contract_rejects w a ABI = Some e \<longrightarrow>
        main w [script, ''get-secret'', a, ow, provider] =
          ([Print (Caller (address account)), Print (Owner ow), Print (Provider provider),
            Contract client a ABI], Inl e)
        \<and> main w [script, ''get-info'', a, ow, provider] =
          ([Print (Caller (address account)), Contract client a ABI], Inl e))
   \<and> (get_client w = Inr (client, account)
       \<and> contract_rejects w a abi_with_whoami = Some e \<longrightarrow>
        main w [script, ''whoami'', a] =
          ([Print (Expected (address account)), Contract client a abi_with_whoami], Inl e))
   \<and> (Call c q \<in> set (fst (main w argv)) \<and> try_error w c q = Some e \<and> is_Exception e \<longrightarrow>
        snd (main w argv) = Inr () \<and> last (fst (main w argv)) = Print (Error e))
   \<and> (snd (main w argv) = Inl e \<and> is_Exception e \<longrightarrow>
        get_client w = Inl e
        \<or> contract_rejects w (argv ! 2)
             (if argv ! 1 = ''whoami'' then abi_with_whoami else ABI) = Some e)"
proof -
  have 1: "recognized argv \<noteq> None \<and> get_client w = Inl e \<longrightarrow> main w argv = ([], Inl e)"
    using main_no_client [of argv w e] by blast
  have 2: "get_client w = Inr (client, account)
       \<and> PROVIDERS_get (keccak w) provider = Some provider_id \<and> provider_id \<noteq> []
       \<and> contract_rejects w a ABI = Some e \<longrightarrow>
        main w [script, ''get-secret'', a, ow, provider] =
          ([Print (Caller (address account)), Print (Owner ow), Print (Provider provider),
            Contract client a ABI], Inl e)
        \<and> main w [script, ''get-info'', a, ow, provider] =
          ([Print (Caller (address account)), Contract client a ABI], Inl e)"
    using get_secret_proxy_error [of w client account provider provider_id a e ow]
      get_info_proxy_error [of w client account provider provider_id a e ow]
    by (simp add: main_def)
  have 3: "get_client w = Inr (client, account)
       \<and> contract_rejects w a abi_with_whoami = Some e \<longrightarrow>
        main w [script, ''whoami'', a] =
          ([Print (Expected (address account)), Contract client a abi_with_whoami], Inl e)"
    using whoami_proxy_error [of w client account a e] by (simp add: main_def)
  have 4: "Call c q \<in> set (fst (main w argv)) \<and> try_error w c q = Some e \<and> is_Exception e \<longrightarrow>
        snd (main w argv) = Inr () \<and> last (fst (main w argv)) = Print (Error e)"
    using main_call_error [of c q w argv e] by blast
  have 5: "snd (main w argv) = Inl e \<and> is_Exception e \<longrightarrow>
        get_client w = Inl e
        \<or> contract_rejects w (argv ! 2)
             (if argv ! 1 = ''whoami'' then abi_with_whoami else ABI) = Some e"
    using main_escape [of w argv e] by blast
  from 1 2 3 4 5 show ?thesis by (intro conjI)
qed

theorem errors_caught_only_inside_try_witness:
  "recognized [''vault_client.py'', ''whoami'', CONTRACT] \<noteq> None
   \<and> get_client (test_world\<lparr>PRIVATE_KEY := None\<rparr>)
       = Inl (ValueError ''PRIVATE_KEY environment variable required'')
   \<and> is_Exception (ValueError ''PRIVATE_KEY environment variable required'')
   \<and> main (test_world\<lparr>PRIVATE_KEY := None\<rparr>) [''vault_client.py'', ''whoami'', CONTRACT]
       = ([], Inl (ValueError ''PRIVATE_KEY environment variable required''))
   \<and> contract_rejects
        (test_world\<lparr>contract_rejects := \<lambda>a abi. Some (OtherException ''invalid address'')\<rparr>)
        CONTRACT abi_with_whoami = Some (OtherException ''invalid address'')
   \<and> main (test_world\<lparr>contract_rejects := \<lambda>a abi. Some (OtherException ''invalid address'')\<rparr>)
        [''vault_client.py'', ''whoami'', CONTRACT]
       = ([Print (Expected (address test_account)),
           Contract \<lparr>rpc_url = RPC_URL, signer = Some test_account\<rparr> CONTRACT abi_with_whoami],
          Inl (OtherException ''invalid address''))
   \<and> main (test_world\<lparr>contract_rejects := \<lambda>a abi. Some (OtherException ''invalid address'')\<rparr>)
        [''vault_client.py'', ''get-secret'', CONTRACT, OWNER, ''OPENAI_API_KEY'']
       = ([Print (Caller (address test_account)), Print (Owner OWNER),
           Print (Provider ''OPENAI_API_KEY''),
           Contract \<lparr>rpc_url = RPC_URL, signer = Some test_account\<rparr> CONTRACT ABI],
          Inl (OtherException ''invalid address''))
   \<and> try_error test_world
        \<lparr>contract_w3 = \<lparr>rpc_url = RPC_URL, signer = Some test_account\<rparr>,
           contract_address = CONTRACT, contract_abi = ABI\<rparr>
        (GetSecret ''0xabc'' (fake_keccak ''OPENAI_API_KEY''))
       = Some (ContractRevertError ''no secret'')
   \<and> snd (main test_world
             [''vault_client.py'', ''get-secret'', CONTRACT, ''0xabc'', ''OPENAI_API_KEY''])
       = Inr ()
   \<and> last (fst (main test_world
             [''vault_client.py'', ''get-secret'', CONTRACT, ''0xabc'', ''OPENAI_API_KEY'']))
       = Print (Error (ContractRevertError ''no secret''))"
proof -
  let ?wr = "test_world\<lparr>contract_rejects := \<lambda>a abi. Some (OtherException ''invalid address'')\<rparr>"
  have p: "PROVIDERS_get (keccak ?wr) ''OPENAI_API_KEY'' = Some (fake_keccak ''OPENAI_API_KEY'')"
    by (simp add: test_world_fields test_provider)
  show ?thesis
    using errors_caught_only_inside_try
            [where argv = "[''vault_client.py'', ''whoami'', CONTRACT]"
               and w = "test_world\<lparr>PRIVATE_KEY := None\<rparr>"
               and e = "ValueError ''PRIVATE_KEY environment variable required''"]
          errors_caught_only_inside_try
            [where argv = "[''vault_client.py'', ''whoami'', CONTRACT]"
               and w = ?wr
               and e = "OtherException ''invalid address''"
               and client = "\<lparr>rpc_url = RPC_URL, signer = Some test_account\<rparr>"
               and account = test_account
               and provider = "''OPENAI_API_KEY''"
               and provider_id = "fake_keccak ''OPENAI_API_KEY''"
               and a = CONTRACT and ow = OWNER and script = "''vault_client.py''"]
          errors_caught_only_inside_try
            [where argv = "[''vault_client.py'', ''get-secret'', CONTRACT, ''0xabc'', ''OPENAI_API_KEY'']"
               and w = test_world
               and e = "ContractRevertError ''no secret''"
               and c = "\<lparr>contract_w3 = \<lparr>rpc_url = RPC_URL, signer = Some test_account\<rparr>,
                          contract_address = CONTRACT, contract_abi = ABI\<rparr>"
               and q = "GetSecret ''0xabc'' (fake_keccak ''OPENAI_API_KEY'')"]
          p
    by (simp add: test_client_unset test_client_rejecting fake_keccak_nonempty test_revert
        test_world_fields test_getSecret_def OWNER_def)
qed

subsection \<open>Unknown providers\<close>

text \<open>C2, as the spec states it, fails: the provider is looked up only after the client
  has been loaded, so with \<open>PRIVATE_KEY\<close> unset an unknown provider name is never
  reported; the command ends with the \<open>ValueError\<close> and prints nothing.\<close>

theorem unknown_provider_not_reported_without_key:
  "''MISTRAL_API_KEY'' \<notin> set (PROVIDERS_keys (keccak (test_world\<lparr>PRIVATE_KEY := None\<rparr>)))
   \<and> get_secret (test_world\<lparr>PRIVATE_KEY := None\<rparr>) CONTRACT OWNER ''MISTRAL_API_KEY''
       = ([], Inl (ValueError ''PRIVATE_KEY environment variable required''))"
  by (simp add: PROVIDERS_keys_eq get_secret_no_client test_client_unset)


text \<open>C2, amended. For a provider name that is not a key of the table, neither
  \<open>get-secret\<close> nor \<open>get-info\<close> builds a contract proxy or sends a call. When the client
  has been loaded, the command prints its header lines, then the six valid names joined
  by \<open>", "\<close>, and returns; when loading the client fails, it ends with that error and
  prints nothing.\<close>

theorem unknown_provider_aborts_before_network:
  assumes "provider \<notin> set (PROVIDERS_keys (keccak w))"
  shows "(\<forall>ev \<in> set (fst (get_secret w a ow provider)) \<union> set (fst (get_info w a ow provider)).
            \<not> is_network ev)
       \<and> (case get_client w of
            Inl e \<Rightarrow>
              get_secret w a ow provider = ([], Inl e) \<and> get_info w a ow provider = ([], Inl e)
          | Inr (client, account) \<Rightarrow>
              get_secret w a ow provider =
                ([Print (Caller (address account)), Print (Owner ow), Print (Provider provider),
                  Print (Unknown_provider
                    ''ANTHROPIC_API_KEY, OPENAI_API_KEY, XAI_API_KEY, OPENROUTER_API_KEY, ZAI_API_KEY, GOOGLE_API_KEY'')],
                 Inr ())
              \<and> get_info w a ow provider =
                ([Print (Caller (address account)),
                  Print (Unknown_provider
                    ''ANTHROPIC_API_KEY, OPENAI_API_KEY, XAI_API_KEY, OPENROUTER_API_KEY, ZAI_API_KEY, GOOGLE_API_KEY'')],
                 Inr ()))"
proof (cases "get_client w")
  case (Inl e)
  then show ?thesis by (simp add: get_secret_no_client get_info_no_client)
next
  case (Inr ca)
  obtain client account where ca: "ca = (client, account)" by (cases ca)
  have none: "PROVIDERS_get (keccak w) provider = None"
    using assms by (rule PROVIDERS_get_unknown)
  have u: "unknown_provider w = Print (Unknown_provider
      ''ANTHROPIC_API_KEY, OPENAI_API_KEY, XAI_API_KEY, OPENROUTER_API_KEY, ZAI_API_KEY, GOOGLE_API_KEY'')"
    unfolding unknown_provider_def join_providers ..
  show ?thesis
    using Inr ca none
    by (simp add: get_secret_unknown [of w client account] get_info_unknown [of w client account] u)
qed


theorem unknown_provider_aborts_before_network_witness:
  "''MISTRAL_API_KEY'' \<notin> set (PROVIDERS_keys (keccak test_world))
   \<and> get_info test_world CONTRACT OWNER ''MISTRAL_API_KEY'' =
       ([Print (Caller ''0x7E5F4552091A69125d5DfCb7b8C2659029395Bdf''),
         Print (Unknown_provider
           ''ANTHROPIC_API_KEY, OPENAI_API_KEY, XAI_API_KEY, OPENROUTER_API_KEY, ZAI_API_KEY, GOOGLE_API_KEY'')],
        Inr ())"
  using unknown_provider_aborts_before_network [of "''MISTRAL_API_KEY''" test_world CONTRACT OWNER]
  by (simp add: PROVIDERS_keys_eq test_client test_account_def)

text \<open>C9. In \<open>get-secret\<close> and \<open>get-info\<close> the client is loaded first: when loading it
  fails, the command ends with that error whatever the provider argument; when it
  succeeds, the \<open>Caller\<close> line is the first thing printed, and for an unknown provider
  the list of valid names comes after it. So with \<open>PRIVATE_KEY\<close> unset and an unknown
  provider, the command ends with the configuration error and the unknown-provider line is
  not printed.\<close>

theorem client_loaded_before_provider_validated:
  "(get_client w = Inl e \<longrightarrow>
      get_secret w a ow provider = ([], Inl e) \<and> get_info w a ow provider = ([], Inl e))
   \<and> (get_client w = Inr (client, account) \<longrightarrow>
      take 1 (fst (get_secret w a ow provider)) = [Print (Caller (address account))]
      \<and> take 1 (fst (get_info w a ow provider)) = [Print (Caller (address account))])
   \<and> (get_client w = Inr (client, account) \<and> provider \<notin> set (PROVIDERS_keys (keccak w)) \<longrightarrow>
      get_secret w a ow provider =
        ([Print (Caller (address account)), Print (Owner ow), Print (Provider provider),
          unknown_provider w], Inr ())
      \<and> get_info w a ow provider =
        ([Print (Caller (address account)), unknown_provider w], Inr ()))
   \<and> ((PRIVATE_KEY w = None \<or> PRIVATE_KEY w = Some [])
       \<and> provider \<notin> set (PROVIDERS_keys (keccak w)) \<longrightarrow>
      get_secret w a ow provider
        = ([], Inl (ValueError ''PRIVATE_KEY environment variable required''))
      \<and> get_info w a ow provider
        = ([], Inl (ValueError ''PRIVATE_KEY environment variable required''))
      \<and> unknown_provider w \<notin> set (fst (get_secret w a ow provider))
      \<and> unknown_provider w \<notin> set (fst (get_info w a ow provider)))"
proof -
  have 1: "get_client w = Inl e \<longrightarrow>
      get_secret w a ow provider = ([], Inl e) \<and> get_info w a ow provider = ([], Inl e)"
    by (simp add: get_secret_no_client get_info_no_client)
  have 2: "get_client w = Inr (client, account) \<longrightarrow>
      take 1 (fst (get_secret w a ow provider)) = [Print (Caller (address account))]
      \<and> take 1 (fst (get_info w a ow provider)) = [Print (Caller (address account))]"
    by (simp add: get_secret_def get_info_def after_def)
  have 3: "get_client w = Inr (client, account) \<and> provider \<notin> set (PROVIDERS_keys (keccak w)) \<longrightarrow>
      get_secret w a ow provider =
        ([Print (Caller (address account)), Print (Owner ow), Print (Provider provider),
          unknown_provider w], Inr ())
      \<and> get_info w a ow provider =
        ([Print (Caller (address account)), unknown_provider w], Inr ())"
    using get_secret_unknown [of w client account provider a ow]
      get_info_unknown [of w client account provider a ow]
      PROVIDERS_get_unknown [of provider "keccak w"]
    by simp
  have 4: "(PRIVATE_KEY w = None \<or> PRIVATE_KEY w = Some [])
       \<and> provider \<notin> set (PROVIDERS_keys (keccak w)) \<longrightarrow>
      get_secret w a ow provider
        = ([], Inl (ValueError ''PRIVATE_KEY environment variable required''))
      \<and> get_info w a ow provider
        = ([], Inl (ValueError ''PRIVATE_KEY environment variable required''))
      \<and> unknown_provider w \<notin> set (fst (get_secret w a ow provider))
      \<and> unknown_provider w \<notin> set (fst (get_info w a ow provider))"
  proof
    assume h: "(PRIVATE_KEY w = None \<or> PRIVATE_KEY w = Some [])
       \<and> provider \<notin> set (PROVIDERS_keys (keccak w))"
    then have "get_client w = Inl (ValueError ''PRIVATE_KEY environment variable required'')"
      using get_client_unset [of w] by blast
    then show "get_secret w a ow provider
        = ([], Inl (ValueError ''PRIVATE_KEY environment variable required''))
      \<and> get_info w a ow provider
        = ([], Inl (ValueError ''PRIVATE_KEY environment variable required''))
      \<and> unknown_provider w \<notin> set (fst (get_secret w a ow provider))
      \<and> unknown_provider w \<notin> set (fst (get_info w a ow provider))"
      by (simp add: get_secret_no_client get_info_no_client)
  qed
  from 1 2 3 4 show ?thesis by (intro conjI)
qed


theorem client_loaded_before_provider_validated_witness:
  "PRIVATE_KEY (test_world\<lparr>PRIVATE_KEY := None\<rparr>) = None
   \<and> ''MISTRAL_API_KEY'' \<notin> set (PROVIDERS_keys (keccak (test_world\<lparr>PRIVATE_KEY := None\<rparr>)))
   \<and> get_secret (test_world\<lparr>PRIVATE_KEY := None\<rparr>) CONTRACT OWNER ''MISTRAL_API_KEY''
       = ([], Inl (ValueError ''PRIVATE_KEY environment variable required''))
   \<and> get_client test_world
       = Inr (\<lparr>rpc_url = RPC_URL, signer = Some test_account\<rparr>, test_account)
   \<and> get_secret test_world CONTRACT OWNER ''MISTRAL_API_KEY'' =
        ([Print (Caller (address test_account)), Print (Owner OWNER),
          Print (Provider ''MISTRAL_API_KEY''), unknown_provider test_world], Inr ())"
  using client_loaded_before_provider_validated [where w = "test_world\<lparr>PRIVATE_KEY := None\<rparr>" and provider = "''MISTRAL_API_KEY''"
              and a = CONTRACT and ow = OWNER
              and e = "ValueError ''PRIVATE_KEY environment variable required''"]
        client_loaded_before_provider_validated [where w = test_world and provider = "''MISTRAL_API_KEY''"
              and a = CONTRACT and ow = OWNER
              and client = "\<lparr>rpc_url = RPC_URL, signer = Some test_account\<rparr>"
              and account = test_account]
  by (simp add: PROVIDERS_keys_eq test_client test_client_unset)

subsection \<open>\<open>whoami\<close>\<close>




subsection \<open>\<open>get-secret\<close>\<close>

text \<open>C6. When the call of \<open>get-secret\<close> returns the UTF-8 encoding of a text, the command
  prints exactly that text as its last line and returns normally; more generally, whatever
  text the returned bytes decode to is what is printed.\<close>

theorem get_secret_round_trip:
  assumes "get_client w = Inr (client, account)"
    and "PROVIDERS_get (keccak w) provider = Some provider_id"
    and "provider_id \<noteq> []"
    and "contract_rejects w a ABI = None"
  shows
    "(list_all is_scalar secret
      \<and> call_getSecret w \<lparr>contract_w3 = client, contract_address = a, contract_abi = ABI\<rparr>
            ow provider_id = Inr (utf8_encode secret) \<longrightarrow>
      get_secret w a ow provider =
        ([Print (Caller (address account)), Print (Owner ow), Print (Provider provider),
          Contract client a ABI,
          Call \<lparr>contract_w3 = client, contract_address = a, contract_abi = ABI\<rparr>
            (GetSecret ow provider_id),
          Print (Secret secret)], Inr ()))
     \<and> (call_getSecret w \<lparr>contract_w3 = client, contract_address = a, contract_abi = ABI\<rparr>
            ow provider_id = Inr secret_bytes
        \<and> utf8_decode secret_bytes = Inr secret \<longrightarrow>
      get_secret w a ow provider =
        ([Print (Caller (address account)), Print (Owner ow), Print (Provider provider),
          Contract client a ABI,
          Call \<lparr>contract_w3 = client, contract_address = a, contract_abi = ABI\<rparr>
            (GetSecret ow provider_id),
          Print (Secret secret)], Inr ()))"
  by (auto simp: get_secret_sent [OF assms] after_def except_Exception_def get_secret_try_def
      utf8_decode_encode)


theorem get_secret_round_trip_witness:
  "list_all is_scalar hello_key_123
   \<and> call_getSecret test_world
        \<lparr>contract_w3 = \<lparr>rpc_url = RPC_URL, signer = Some test_account\<rparr>,
           contract_address = CONTRACT, contract_abi = ABI\<rparr>
        OWNER (fake_keccak ''OPENAI_API_KEY'') = Inr (utf8_encode hello_key_123)
   \<and> get_secret test_world CONTRACT OWNER ''OPENAI_API_KEY'' =
       ([Print (Caller (address test_account)), Print (Owner OWNER),
         Print (Provider ''OPENAI_API_KEY''),
         Contract \<lparr>rpc_url = RPC_URL, signer = Some test_account\<rparr> CONTRACT ABI,
         Call \<lparr>contract_w3 = \<lparr>rpc_url = RPC_URL, signer = Some test_account\<rparr>,
                contract_address = CONTRACT, contract_abi = ABI\<rparr>
           (GetSecret OWNER (fake_keccak ''OPENAI_API_KEY'')),
         Print (Secret hello_key_123)], Inr ())"
proof -
  have p: "PROVIDERS_get (keccak test_world) ''OPENAI_API_KEY''
           = Some (fake_keccak ''OPENAI_API_KEY'')"
    by (simp add: test_world_fields test_provider)
  have r: "contract_rejects test_world CONTRACT ABI = None"
    by (simp add: test_world_fields)
  have s: "call_getSecret test_world
             \<lparr>contract_w3 = \<lparr>rpc_url = RPC_URL, signer = Some test_account\<rparr>,
                contract_address = CONTRACT, contract_abi = ABI\<rparr>
             OWNER (fake_keccak ''OPENAI_API_KEY'') = Inr (utf8_encode hello_key_123)"
    by (simp add: test_world_fields test_getSecret_def msg_sender_def)
  show ?thesis
    using get_secret_round_trip [OF test_client p fake_keccak_nonempty r, of hello_key_123 OWNER] hello_scalar s
    by simp
qed


text \<open>C7. When the bytes the call of \<open>get-secret\<close> returns are not well-formed UTF-8, the
  decoding raises \<open>UnicodeDecodeError\<close>, which the command catches: its last line is the
  \<open>Error\<close> line of that exception and it returns normally. A revert of the contract is
  reported in the same way.\<close>

theorem get_secret_reports_decode_and_revert:
  assumes "get_client w = Inr (client, account)"
    and "PROVIDERS_get (keccak w) provider = Some provider_id"
    and "provider_id \<noteq> []"
    and "contract_rejects w a ABI = None"
  shows
    "(call_getSecret w \<lparr>contract_w3 = client, contract_address = a, contract_abi = ABI\<rparr>
        ow provider_id = Inr secret_bytes
      \<and> utf8_decode_nat (map unat secret_bytes) = None \<longrightarrow>
      utf8_decode secret_bytes = Inl UnicodeDecodeError
      \<and> get_secret w a ow provider =
        ([Print (Caller (address account)), Print (Owner ow), Print (Provider provider),
          Contract client a ABI,
          Call \<lparr>contract_w3 = client, contract_address = a, contract_abi = ABI\<rparr>
            (GetSecret ow provider_id),
          Print (Error UnicodeDecodeError)], Inr ()))
     \<and> (call_getSecret w \<lparr>contract_w3 = client, contract_address = a, contract_abi = ABI\<rparr>
          ow provider_id = Inl (ContractRevertError msg) \<longrightarrow>
      get_secret w a ow provider =
        ([Print (Caller (address account)), Print (Owner ow), Print (Provider provider),
          Contract client a ABI,
          Call \<lparr>contract_w3 = client, contract_address = a, contract_abi = ABI\<rparr>
            (GetSecret ow provider_id),
          Print (Error (ContractRevertError msg))], Inr ()))"
  by (auto simp: get_secret_sent [OF assms] after_def except_Exception_def get_secret_try_def
      utf8_decode_def)


theorem get_secret_reports_decode_and_revert_witness:
  "utf8_decode_nat (map unat [0xFF :: 8 word]) = None
   \<and> get_secret (test_world\<lparr>call_getSecret := \<lambda>c ow p. Inr [0xFF]\<rparr>)
        CONTRACT OWNER ''OPENAI_API_KEY'' =
       ([Print (Caller (address test_account)), Print (Owner OWNER),
         Print (Provider ''OPENAI_API_KEY''),
         Contract \<lparr>rpc_url = RPC_URL, signer = Some test_account\<rparr> CONTRACT ABI,
         Call \<lparr>contract_w3 = \<lparr>rpc_url = RPC_URL, signer = Some test_account\<rparr>,
                contract_address = CONTRACT, contract_abi = ABI\<rparr>
           (GetSecret OWNER (fake_keccak ''OPENAI_API_KEY'')),
         Print (Error UnicodeDecodeError)], Inr ())
   \<and> get_secret test_world CONTRACT ''0xabc'' ''OPENAI_API_KEY'' =
       ([Print (Caller (address test_account)), Print (Owner ''0xabc''),
         Print (Provider ''OPENAI_API_KEY''),
         Contract \<lparr>rpc_url = RPC_URL, signer = Some test_account\<rparr> CONTRACT ABI,
         Call \<lparr>contract_w3 = \<lparr>rpc_url = RPC_URL, signer = Some test_account\<rparr>,
                contract_address = CONTRACT, contract_abi = ABI\<rparr>
           (GetSecret ''0xabc'' (fake_keccak ''OPENAI_API_KEY'')),
         Print (Error (ContractRevertError ''no secret''))], Inr ())"
proof -
  let ?w = "test_world\<lparr>call_getSecret := \<lambda>c ow p. Inr [0xFF]\<rparr>"
  have c: "get_client ?w
           = Inr (\<lparr>rpc_url = RPC_URL, signer = Some test_account\<rparr>, test_account)"
    by (simp add: get_client_def test_world_def test_account_def)
  have p: "PROVIDERS_get (keccak ?w) ''OPENAI_API_KEY'' = Some (fake_keccak ''OPENAI_API_KEY'')"
    by (simp add: test_world_fields test_provider)
  have r: "contract_rejects ?w CONTRACT ABI = None"
    by (simp add: test_world_fields)
  have p': "PROVIDERS_get (keccak test_world) ''OPENAI_API_KEY''
            = Some (fake_keccak ''OPENAI_API_KEY'')"
    by (simp add: test_world_fields test_provider)
  have r': "contract_rejects test_world CONTRACT ABI = None"
    by (simp add: test_world_fields)
  show ?thesis
    using get_secret_reports_decode_and_revert [OF c p fake_keccak_nonempty r, of OWNER "[0xFF]"]
      get_secret_reports_decode_and_revert [OF test_client p' fake_keccak_nonempty r', of "''0xabc''" _ "''no secret''"]
    by (simp add: test_world_fields test_getSecret_def OWNER_def)
qed

end
